theory Spec2Isabelle
  imports Complex_Main "HOL-Library.Word" "HOL-Library.AList"
begin

section \<open>JavaScript strings\<close>

text \<open>
  A JavaScript string is a sequence of UTF-16 code units. The component inspects a
  string only through \<^verbatim>\<open>trim()\<close>, emptiness and \<^verbatim>\<open>length\<close>; everything else is
  passed through. \<open>lit\<close> embeds an ASCII literal of the source.
\<close>

type_synonym jstring = "16 word list"

definition lit :: "string \<Rightarrow> jstring" where
  "lit s = map of_char s"

text \<open>
  The code units \<^verbatim>\<open>String.prototype.trim\<close> strips: ECMAScript's WhiteSpace (TAB, VT, FF,
  ZWNBSP and the Unicode space separators) and LineTerminator (LF, CR, LS, PS).
\<close>

definition is_ws :: "16 word \<Rightarrow> bool" where
  "is_ws c = (c = 0x09 \<or> c = 0x0A \<or> c = 0x0B \<or> c = 0x0C \<or> c = 0x0D \<or> c = 0x20
     \<or> c = 0xA0 \<or> c = 0x1680 \<or> (0x2000 \<le> c \<and> c \<le> 0x200A) \<or> c = 0x2028 \<or> c = 0x2029
     \<or> c = 0x202F \<or> c = 0x205F \<or> c = 0x3000 \<or> c = 0xFEFF)"

definition trim :: "jstring \<Rightarrow> jstring" where
  "trim s = rev (dropWhile is_ws (rev (dropWhile is_ws s)))"

text \<open>Decimal digits of a natural number: what a template literal prints for it.\<close>

fun show_nat :: "nat \<Rightarrow> jstring" where
  "show_nat n =
     (if n < 10 then [of_nat (48 + n)]
      else show_nat (n div 10) @ [of_nat (48 + n mod 10)])"

section \<open>JSON values\<close>

text \<open>
  What \<^verbatim>\<open>response.json()\<close> produces. A number is the parsed double: a rational, or an
  infinity (\<^verbatim>\<open>1e999\<close> parses to \<^verbatim>\<open>Infinity\<close>); NaN cannot be parsed, and \<^verbatim>\<open>-0\<close> behaves as
  \<open>0\<close> in every operation used here. \<^verbatim>\<open>undefined\<close> is not a JSON value: a property read
  that finds nothing yields \<open>None\<close>.
\<close>

datatype jsnum = Fin rat | PosInf | NegInf

datatype jsval =
    JNull
  | JBool bool
  | JNum jsnum
  | JStr jstring
  | JArr "jsval list"
  | JObj "(jstring \<times> jsval) list"

text \<open>
  Exceptions. \<open>Thrown m\<close> is an error object whose \<^verbatim>\<open>message\<close> is \<open>m\<close> (built by
  \<^verbatim>\<open>new Error(m)\<close>, or by \<^verbatim>\<open>fetch\<close>, \<^verbatim>\<open>response.json()\<close> or a built-in). \<open>Fault f\<close> is a
  TypeError the engine raises; its message differs between engines and is supplied by
  the runtime.
\<close>

datatype type_fault = ReadOfNull jstring | NotAFunction jstring | NoPrimitive

datatype js_error = Thrown jstring | Fault type_fault

text \<open>
  The parts of the platform the component relies on and this theory does not define:
  the build-time variable \<^verbatim>\<open>import.meta.env.VITE_API_URL\<close>, the engine's TypeError
  messages, \<^verbatim>\<open>Number::toString\<close> outside the safe integers, \<^verbatim>\<open>ToNumber\<close> of strings, arrays
  and objects, and \<^verbatim>\<open>encodeURIComponent\<close>. Every theorem holds for every runtime.
\<close>

record runtime =
  VITE_API_URL :: "jstring option"
  fault_message :: "type_fault \<Rightarrow> jstring"
  number_to_string :: "rat \<Rightarrow> jstring"
  to_number :: "jsval \<Rightarrow> js_error + jsnum option"
  encodeURIComponent :: "jstring \<Rightarrow> js_error + jstring"

fun message :: "runtime \<Rightarrow> js_error \<Rightarrow> jstring" where
  "message rt (Thrown m) = m"
| "message rt (Fault f) = fault_message rt f"

text \<open>\<^verbatim>\<open>const API_URL = import.meta.env.VITE_API_URL || 'http://localhost:5000'\<close>\<close>

definition API_URL :: "runtime \<Rightarrow> jstring" where
  "API_URL rt =
     (case VITE_API_URL rt of
        None \<Rightarrow> lit ''http://localhost:5000''
      | Some u \<Rightarrow> if u = [] then lit ''http://localhost:5000'' else u)"

text \<open>Truthiness of a JSON value (\<^verbatim>\<open>ToBoolean\<close>).\<close>

fun truthy :: "jsval \<Rightarrow> bool" where
  "truthy JNull = False"
| "truthy (JBool b) = b"
| "truthy (JNum n) = (n \<noteq> Fin 0)"
| "truthy (JStr s) = (s \<noteq> [])"
| "truthy (JArr xs) = True"
| "truthy (JObj kvs) = True"

text \<open>
  The property read \<^verbatim>\<open>v.p\<close>, for the names this component reads (\<^verbatim>\<open>words\<close>, \<^verbatim>\<open>length\<close>,
  \<^verbatim>\<open>importance\<close>, \<^verbatim>\<open>opacity\<close>, \<^verbatim>\<open>word\<close>): of these the built-in prototypes define only
  \<^verbatim>\<open>length\<close>, on strings and arrays. Reading from \<^verbatim>\<open>null\<close> throws.
\<close>

fun get_prop :: "jsval \<Rightarrow> jstring \<Rightarrow> js_error + jsval option" where
  "get_prop JNull p = Inl (Fault (ReadOfNull p))"
| "get_prop (JObj kvs) p = Inr (map_of kvs p)"
| "get_prop (JArr xs) p =
     Inr (if p = lit ''length'' then Some (JNum (Fin (of_nat (length xs)))) else None)"
| "get_prop (JStr s) p =
     Inr (if p = lit ''length'' then Some (JNum (Fin (of_nat (length s)))) else None)"
| "get_prop (JBool b) p = Inr None"
| "get_prop (JNum n) p = Inr None"

text \<open>
  The comparison \<^verbatim>\<open>x > 0\<close>: \<^verbatim>\<open>undefined\<close> becomes NaN, \<^verbatim>\<open>null\<close> becomes 0, a boolean
  0 or 1; strings, arrays and objects go through the runtime's \<^verbatim>\<open>ToNumber\<close>, which may
  throw or yield NaN (\<open>None\<close>).
\<close>

fun num_pos :: "jsnum \<Rightarrow> bool" where
  "num_pos (Fin r) = (0 < r)"
| "num_pos PosInf = True"
| "num_pos NegInf = False"

fun gt_zero :: "runtime \<Rightarrow> jsval option \<Rightarrow> js_error + bool" where
  "gt_zero rt None = Inr False"
| "gt_zero rt (Some JNull) = Inr False"
| "gt_zero rt (Some (JBool b)) = Inr b"
| "gt_zero rt (Some (JNum n)) = Inr (num_pos n)"
| "gt_zero rt (Some v) =
     (case to_number rt v of
        Inl e \<Rightarrow> Inl e
      | Inr None \<Rightarrow> Inr False
      | Inr (Some n) \<Rightarrow> Inr (num_pos n))"

text \<open>\<^verbatim>\<open>v.length > 0\<close>\<close>

definition length_gt_zero :: "runtime \<Rightarrow> jsval \<Rightarrow> js_error + bool" where
  "length_gt_zero rt v =
     (case get_prop v (lit ''length'') of
        Inl e \<Rightarrow> Inl e
      | Inr len \<Rightarrow> gt_zero rt len)"

section \<open>The component and its environment\<close>

text \<open>
  A call of \<^verbatim>\<open>fetch\<close>: \<open>verb\<close> is the HTTP method, \<open>body\<close> the value handed to
  \<^verbatim>\<open>JSON.stringify\<close> (the serialisation itself is not modelled).
\<close>

record request =
  verb :: string
  url :: jstring
  headers :: "(string \<times> string) list"
  body :: "jsval option"

text \<open>
  How the awaited network exchange ends: \<^verbatim>\<open>fetch\<close> rejects, or it resolves with a
  response of some status whose \<^verbatim>\<open>json()\<close> rejects (\<open>Inl\<close>) or yields a value.
\<close>

datatype fetch_outcome =
    Rejected js_error
  | Responded nat "js_error + jsval"

text \<open>\<^verbatim>\<open>response.ok\<close>: the status is in the range 200 to 299.\<close>

definition response_ok :: "nat \<Rightarrow> bool" where
  "response_ok st = (200 \<le> st \<and> st \<le> 299)"

text \<open>The suspended rest of an async handler, with the variables it closes over.\<close>

datatype cont = AnalyzeCont | TranslateCont jsval

datatype log_entry = Log jstring jsval | ErrorLog jstring js_error

text \<open>
  The six \<^verbatim>\<open>useState\<close> variables of \<^verbatim>\<open>GPTSMReader\<close>, followed by the environment:
  the \<^verbatim>\<open>fetch\<close> calls made so far, the requests in flight (index into \<open>sent\<close>, and the
  continuation that awaits it), the console, the clock in milliseconds, and the due
  times of the pending \<^verbatim>\<open>setTimeout\<close> callbacks (each one is
  \<^verbatim>\<open>() => setSelectedWord(null)\<close>).
\<close>

record world =
  inputText :: jstring
  processedWords :: jsval
  isLoading :: bool
  error :: "jstring option"
  selectedWord :: jsval
  sidebarOpen :: bool
  sent :: "request list"
  pending :: "(nat \<times> cont) list"
  console :: "log_entry list"
  clock :: nat
  timers :: "nat list"

definition initial :: world where
  "initial = \<lparr> inputText = [], processedWords = JArr [], isLoading = False, error = None,
     selectedWord = JNull, sidebarOpen = False, sent = [], pending = [], console = [],
     clock = 0, timers = [] \<rparr>"

subsection \<open>handleAnalyze\<close>

text \<open>
  The synchronous part, up to the first \<^verbatim>\<open>await\<close>: the blank check, the two setters,
  the log line and the call of \<^verbatim>\<open>fetch\<close>.
\<close>

definition handleAnalyze_start :: "runtime \<Rightarrow> world \<Rightarrow> world" where
  "handleAnalyze_start rt w =
     (if trim (inputText w) = [] then
        w\<lparr>error := Some (lit ''Please enter some text to analyze'')\<rparr>
      else
        let target = API_URL rt @ lit ''/api/process-text'' in
        w\<lparr> isLoading := True, error := None,
           console := console w @ [Log (lit ''Sending request to:'') (JStr target)],
           sent := sent w @
             [\<lparr> verb = ''POST'', url = target,
                headers = [(''Content-Type'', ''application/json'')],
                body = Some (JObj [(lit ''text'', JStr (inputText w))]) \<rparr>],
           pending := pending w @ [(length (sent w), AnalyzeCont)] \<rparr>)"

text \<open>
  The rest of the \<^verbatim>\<open>try\<close> block, run when the exchange has ended: the world as the
  block leaves it, and the exception it throws, if any.
\<close>

definition handleAnalyze_try :: "runtime \<Rightarrow> fetch_outcome \<Rightarrow> world \<Rightarrow> world \<times> js_error option" where
  "handleAnalyze_try rt outcome w =
     (case outcome of
        Rejected e \<Rightarrow> (w, Some e)
      | Responded st parsed \<Rightarrow>
          if \<not> response_ok st then (w, Some (Thrown (lit ''Server error: '' @ show_nat st)))
          else
            (case parsed of
               Inl e \<Rightarrow> (w, Some e)
             | Inr data \<Rightarrow>
                 let w1 = w\<lparr>console := console w @ [Log (lit ''Received data:'') data]\<rparr>;
                     no_words = (w1\<lparr>error := Some (lit ''No words returned from server'')\<rparr>, None)
                 in
                 (case get_prop data (lit ''words'') of
                    Inl e \<Rightarrow> (w1, Some e)
                  | Inr None \<Rightarrow> no_words
                  | Inr (Some ws) \<Rightarrow>
                      if \<not> truthy ws then no_words
                      else
                        (case length_gt_zero rt ws of
                           Inl e \<Rightarrow> (w1, Some e)
                         | Inr True \<Rightarrow> (w1\<lparr>processedWords := ws, error := None\<rparr>, None)
                         | Inr False \<Rightarrow> no_words))))"

text \<open>The \<^verbatim>\<open>catch\<close> and \<^verbatim>\<open>finally\<close> blocks around it.\<close>

definition handleAnalyze_resume :: "runtime \<Rightarrow> fetch_outcome \<Rightarrow> world \<Rightarrow> world" where
  "handleAnalyze_resume rt outcome w =
     (let (w1, thrown) = handleAnalyze_try rt outcome w;
          w2 = (case thrown of
                  None \<Rightarrow> w1
                | Some err \<Rightarrow>
                    w1\<lparr> console := console w1 @ [ErrorLog (lit ''Error:'') err],
                        error := Some (lit ''Failed to process text: '' @ message rt err) \<rparr>)
      in w2\<lparr>isLoading := False\<rparr>)"

text \<open>The whole call, when nothing else happens between the \<^verbatim>\<open>await\<close> and its end.\<close>

definition handleAnalyze :: "runtime \<Rightarrow> fetch_outcome \<Rightarrow> world \<Rightarrow> world" where
  "handleAnalyze rt outcome w =
     (if trim (inputText w) = [] then handleAnalyze_start rt w
      else handleAnalyze_resume rt outcome ((handleAnalyze_start rt w)\<lparr>pending := pending w\<rparr>))"

subsection \<open>Rendering the word list\<close>

text \<open>
  \<^verbatim>\<open>ToString\<close>, as a template literal and \<^verbatim>\<open>encodeURIComponent\<close> apply it. Integers up
  to \<open>2^53\<close> print as their decimal digits. An array prints its elements joined by
  commas, \<^verbatim>\<open>null\<close> elements as the empty string. A parsed object prints as
  \<^verbatim>\<open>[object Object]\<close>, unless it has an own property \<^verbatim>\<open>toString\<close>: a JSON value is not
  callable, and the conversion throws.
\<close>

definition num_to_string :: "runtime \<Rightarrow> jsnum \<Rightarrow> jstring" where
  "num_to_string rt n =
     (case n of
        PosInf \<Rightarrow> lit ''Infinity''
      | NegInf \<Rightarrow> lit ''-Infinity''
      | Fin r \<Rightarrow>
          if r = of_int \<lfloor>r\<rfloor> \<and> \<bar>r\<bar> \<le> 9007199254740992
          then (if r < 0 then lit ''-'' else []) @ show_nat (nat \<bar>\<lfloor>r\<rfloor>\<bar>)
          else number_to_string rt r)"

fun sequence :: "('e + 'a) list \<Rightarrow> 'e + 'a list" where
  "sequence [] = Inr []"
| "sequence (Inl e # rs) = Inl e"
| "sequence (Inr x # rs) = (case sequence rs of Inl e \<Rightarrow> Inl e | Inr xs \<Rightarrow> Inr (x # xs))"

fun join_commas :: "jstring list \<Rightarrow> jstring" where
  "join_commas [] = []"
| "join_commas [s] = s"
| "join_commas (s # t # ss) = s @ lit '','' @ join_commas (t # ss)"

fun js_to_string :: "runtime \<Rightarrow> jsval \<Rightarrow> js_error + jstring" where
  "js_to_string rt JNull = Inr (lit ''null'')"
| "js_to_string rt (JBool b) = Inr (if b then lit ''true'' else lit ''false'')"
| "js_to_string rt (JNum n) = Inr (num_to_string rt n)"
| "js_to_string rt (JStr s) = Inr s"
| "js_to_string rt (JArr xs) =
     (case sequence (map (\<lambda>x. if x = JNull then Inr [] else js_to_string rt x) xs) of
        Inl e \<Rightarrow> Inl e
      | Inr ss \<Rightarrow> Inr (join_commas ss))"
| "js_to_string rt (JObj kvs) =
     (if lit ''toString'' \<in> fst ` set kvs then Inl (Fault NoPrimitive)
      else Inr (lit ''[object Object]''))"

definition to_string :: "runtime \<Rightarrow> jsval option \<Rightarrow> js_error + jstring" where
  "to_string rt x = (case x of None \<Rightarrow> Inr (lit ''undefined'') | Some v \<Rightarrow> js_to_string rt v)"

text \<open>
  The React element of one word: \<open>opacity\<close> is the value of \<^verbatim>\<open>style.opacity\<close>, \<open>onClick\<close>
  the annotation the click handler passes to \<^verbatim>\<open>handleWordClick\<close>, \<open>label\<close> the child
  \<^verbatim>\<open>{wordData.word}\<close> (a space follows it).
\<close>

record span =
  key :: nat
  className :: jstring
  opacity :: "jsval option"
  onClick :: jsval
  label :: "jsval option"

definition render_word :: "runtime \<Rightarrow> nat \<times> jsval \<Rightarrow> js_error + span" where
  "render_word rt iw =
     (case iw of (index, wordData) \<Rightarrow>
        (case get_prop wordData (lit ''importance'') of
           Inl e \<Rightarrow> Inl e
         | Inr importance \<Rightarrow>
             (case to_string rt importance of
                Inl e \<Rightarrow> Inl e
              | Inr cls \<Rightarrow>
                  (case get_prop wordData (lit ''opacity'') of
                     Inl e \<Rightarrow> Inl e
                   | Inr op \<Rightarrow>
                       (case get_prop wordData (lit ''word'') of
                          Inl e \<Rightarrow> Inl e
                        | Inr wd \<Rightarrow>
                            Inr \<lparr> key = index, className = lit ''word importance-'' @ cls,
                                  opacity = op, onClick = wordData, label = wd \<rparr>)))))"

text \<open>
  The results section: \<^verbatim>\<open>processedWords.length > 0 && ( ... processedWords.map( ... ) )\<close>.
  \<open>Inr None\<close>: nothing is rendered. \<open>Inl\<close>: the render throws.
\<close>

definition render_results :: "runtime \<Rightarrow> jsval \<Rightarrow> js_error + span list option" where
  "render_results rt pw =
     (case length_gt_zero rt pw of
        Inl e \<Rightarrow> Inl e
      | Inr False \<Rightarrow> Inr None
      | Inr True \<Rightarrow>
          (case pw of
             JArr xs \<Rightarrow>
               (case sequence (map (render_word rt) (List.enumerate 0 xs)) of
                  Inl e \<Rightarrow> Inl e
                | Inr spans \<Rightarrow> Inr (Some spans))
           | _ \<Rightarrow> Inl (Fault (NotAFunction (lit ''processedWords.map'')))))"

subsection \<open>handleWordClick\<close>

text \<open>
  The own enumerable properties an object spread copies: those of an object, the
  indexed elements of an array or a string, nothing of a number, a boolean or
  \<^verbatim>\<open>null\<close>. \<open>spread a b\<close> is \<^verbatim>\<open>{ ...a, ...b }\<close>; the order of the properties in the
  result is not modelled, only what each name maps to.
\<close>

fun own_props :: "jsval \<Rightarrow> (jstring \<times> jsval) list" where
  "own_props (JObj kvs) = kvs"
| "own_props (JArr xs) = map (\<lambda>(i, x). (show_nat i, x)) (List.enumerate 0 xs)"
| "own_props (JStr s) = map (\<lambda>(i, c). (show_nat i, JStr [c])) (List.enumerate 0 s)"
| "own_props v = []"

definition spread :: "jsval \<Rightarrow> jsval \<Rightarrow> jsval" where
  "spread a b = JObj (AList.merge (own_props a) (own_props b))"

text \<open>
  \<^verbatim>\<open>`${API_URL}/api/translate/word/${encodeURIComponent(wordData.word)}`\<close>: each of the
  property read, the conversion to a string and the encoding can throw.
\<close>

definition translate_url :: "runtime \<Rightarrow> jsval \<Rightarrow> js_error + jstring" where
  "translate_url rt wordData =
     (case get_prop wordData (lit ''word'') of
        Inl e \<Rightarrow> Inl e
      | Inr wd \<Rightarrow>
          (case to_string rt wd of
             Inl e \<Rightarrow> Inl e
           | Inr s \<Rightarrow>
               (case encodeURIComponent rt s of
                  Inl e \<Rightarrow> Inl e
                | Inr enc \<Rightarrow> Inr (API_URL rt @ lit ''/api/translate/word/'' @ enc))))"

text \<open>The synchronous part: the two setters, then the \<^verbatim>\<open>try\<close> block up to its \<^verbatim>\<open>await\<close>.\<close>

definition handleWordClick_start :: "runtime \<Rightarrow> jsval \<Rightarrow> world \<Rightarrow> world" where
  "handleWordClick_start rt wordData w =
     (let w1 = w\<lparr>selectedWord := wordData, sidebarOpen := True\<rparr> in
      case translate_url rt wordData of
        Inl err \<Rightarrow> w1\<lparr>console := console w1 @ [ErrorLog (lit ''Translation error:'') err]\<rparr>
      | Inr target \<Rightarrow>
          w1\<lparr> sent := sent w1 @ [\<lparr> verb = ''GET'', url = target, headers = [], body = None \<rparr>],
              pending := pending w1 @ [(length (sent w1), TranslateCont wordData)] \<rparr>)"

text \<open>
  The rest, run when the exchange has ended. The status of the response is not looked
  at: whatever \<^verbatim>\<open>response.json()\<close> yields is spread over \<^verbatim>\<open>wordData\<close>.
\<close>

definition handleWordClick_resume :: "jsval \<Rightarrow> fetch_outcome \<Rightarrow> world \<Rightarrow> world" where
  "handleWordClick_resume wordData outcome w =
     (case outcome of
        Rejected err \<Rightarrow> w\<lparr>console := console w @ [ErrorLog (lit ''Translation error:'') err]\<rparr>
      | Responded st parsed \<Rightarrow>
          (case parsed of
             Inl err \<Rightarrow> w\<lparr>console := console w @ [ErrorLog (lit ''Translation error:'') err]\<rparr>
           | Inr translationData \<Rightarrow> w\<lparr>selectedWord := spread wordData translationData\<rparr>))"

subsection \<open>closeSidebar and the timer\<close>

definition closeSidebar :: "world \<Rightarrow> world" where
  "closeSidebar w = w\<lparr>sidebarOpen := False, timers := timers w @ [clock w + 300]\<rparr>"

text \<open>
  \<open>d\<close> milliseconds pass with no other event: the callbacks that have fallen due run
  (each sets the selection to \<^verbatim>\<open>null\<close>) and leave the queue.
\<close>

definition elapse :: "nat \<Rightarrow> world \<Rightarrow> world" where
  "elapse d w =
     (let now = clock w + d in
      w\<lparr> clock := now,
         timers := filter (\<lambda>t. now < t) (timers w),
         selectedWord := (if \<exists>t \<in> set (timers w). t \<le> now then JNull else selectedWord w) \<rparr>)"

text \<open>The sidebar is in the rendered tree: \<^verbatim>\<open>sidebarOpen && selectedWord && ( ... )\<close>.\<close>

definition sidebar_visible :: "world \<Rightarrow> bool" where
  "sidebar_visible w = (sidebarOpen w \<and> truthy (selectedWord w))"

subsection \<open>Events\<close>

text \<open>
  What can happen to the mounted component: typing, a click on the button (disabled
  while loading), on the \<open>i\<close>-th rendered word, on the overlay or the close button
  (present while the sidebar is), the end of the exchange of request \<open>i\<close>, and time
  passing. Every handler overwrites state with absolute values, so a trace is a fold.
\<close>

datatype event =
    TypeText jstring
  | ClickAnalyze
  | ClickWord nat
  | ClickClose
  | Settle nat fetch_outcome
  | Elapse nat

definition settle :: "runtime \<Rightarrow> nat \<Rightarrow> fetch_outcome \<Rightarrow> world \<Rightarrow> world" where
  "settle rt i outcome w =
     (case map_of (pending w) i of
        None \<Rightarrow> w
      | Some k \<Rightarrow>
          let w1 = w\<lparr>pending := filter (\<lambda>p. fst p \<noteq> i) (pending w)\<rparr> in
          (case k of
             AnalyzeCont \<Rightarrow> handleAnalyze_resume rt outcome w1
           | TranslateCont wordData \<Rightarrow> handleWordClick_resume wordData outcome w1))"

fun step :: "runtime \<Rightarrow> event \<Rightarrow> world \<Rightarrow> world" where
  "step rt (TypeText s) w = w\<lparr>inputText := s\<rparr>"
| "step rt ClickAnalyze w = (if isLoading w then w else handleAnalyze_start rt w)"
| "step rt (ClickWord i) w =
     (case render_results rt (processedWords w) of
        Inr (Some spans) \<Rightarrow>
          if i < length spans then handleWordClick_start rt (onClick (spans ! i)) w else w
      | _ \<Rightarrow> w)"
| "step rt ClickClose w = (if sidebar_visible w then closeSidebar w else w)"
| "step rt (Settle i outcome) w = settle rt i outcome w"
| "step rt (Elapse d) w = elapse d w"

definition run :: "runtime \<Rightarrow> event list \<Rightarrow> world \<Rightarrow> world" where
  "run rt evs w = fold (step rt) evs w"

subsection \<open>Example data\<close>

text \<open>
  A runtime for the examples. Its TypeError messages are V8's; the three conversions
  answer as V8 does on the inputs the examples give them (a word of unreserved ASCII
  characters is its own encoding) and with placeholders elsewhere.
\<close>

definition v8_message :: "type_fault \<Rightarrow> jstring" where
  "v8_message f =
     (case f of
        ReadOfNull p \<Rightarrow> lit ''Cannot read properties of null (reading '' @ [0x27] @ p @ [0x27] @ lit '')''
      | NotAFunction g \<Rightarrow> g @ lit '' is not a function''
      | NoPrimitive \<Rightarrow> lit ''Cannot convert object to primitive value'')"

definition sample_runtime :: runtime where
  "sample_runtime = \<lparr> VITE_API_URL = None, fault_message = v8_message,
     number_to_string = (\<lambda>r. lit ''0.5''), to_number = (\<lambda>v. Inr None),
     encodeURIComponent = (\<lambda>s. Inr s) \<rparr>"

text \<open>The annotations \<^verbatim>\<open>{word: "cat", importance: 4, opacity: 1}\<close> and
  \<^verbatim>\<open>{word: "sat", importance: 0, opacity: 1}\<close>, and a response that carries both.\<close>

definition cat :: jsval where
  "cat = JObj [(lit ''word'', JStr (lit ''cat'')), (lit ''importance'', JNum (Fin 4)),
     (lit ''opacity'', JNum (Fin 1))]"

definition sat :: jsval where
  "sat = JObj [(lit ''word'', JStr (lit ''sat'')), (lit ''importance'', JNum (Fin 0)),
     (lit ''opacity'', JNum (Fin 1))]"

definition words_response :: "jsval list \<Rightarrow> fetch_outcome" where
  "words_response ws = Responded 200 (Inr (JObj [(lit ''words'', JArr ws)]))"

subsection \<open>Example traces\<close>

text \<open>A first analysis returns one word; a second one, of the same text, returns none.\<close>

definition second_analysis_empty :: "event list" where
  "second_analysis_empty =
     [TypeText (lit ''cat''), ClickAnalyze, Settle 0 (words_response [cat]),
      ClickAnalyze, Settle 1 (words_response [])]"

text \<open>An analysis of two words, and the translation of the first: a response with a
  \<^verbatim>\<open>translation\<close> of four Hebrew letters (chet, tav, vav, lamed) and the
  \<^verbatim>\<open>transliteration\<close> "chatul".\<close>

definition analysed :: "event list" where
  "analysed = [TypeText (lit ''cat sat''), ClickAnalyze, Settle 0 (words_response [cat, sat])]"

definition chatul :: jsval where
  "chatul = JObj [(lit ''translation'', JStr [0x5D7, 0x5EA, 0x5D5, 0x5DC]),
     (lit ''transliteration'', JStr (lit ''chatul''))]"

text \<open>The panel is opened, closed, and opened again 200 ms later.\<close>

definition reopened :: "event list" where
  "reopened = analysed @ [ClickWord 0, ClickClose, Elapse 200, ClickWord 1]"

text \<open>
  The translation of the first word is answered with status 404 and the body
  \<^verbatim>\<open>{error: "Word not found"}\<close>: once with that word still selected, once after the
  second word has been selected.
\<close>

definition not_found :: fetch_outcome where
  "not_found = Responded 404 (Inr (JObj [(lit ''error'', JStr (lit ''Word not found''))]))"

definition translation_refused :: "event list" where
  "translation_refused = analysed @ [ClickWord 0, Settle 1 not_found]"

definition translation_refused_late :: "event list" where
  "translation_refused_late = analysed @ [ClickWord 0, ClickWord 1, Settle 1 not_found]"

section \<open>Properties of handleAnalyze\<close>

lemmas analyze_defs = handleAnalyze_resume_def handleAnalyze_try_def Let_def

lemmas analyze_splits =
  fetch_outcome.splits sum.splits option.splits bool.splits prod.splits

lemma dropWhile_all: "(\<forall>x \<in> set (dropWhile P s). P x) \<longleftrightarrow> (\<forall>x \<in> set s. P x)"
  by (induction s) auto

lemma trim_empty_iff: "trim s = [] \<longleftrightarrow> (\<forall>c \<in> set s. is_ws c)"
  by (simp add: trim_def dropWhile_eq_Nil_conv dropWhile_all)

lemma trim_cat: "trim (inputText (w\<lparr>inputText := lit ''cat''\<rparr>)) \<noteq> []"
  by (simp add: trim_def is_ws_def lit_def)

lemma length_gt_zero_empty: "length_gt_zero rt (JArr []) = Inr False"
  by (simp add: length_gt_zero_def)

lemma render_results_empty: "render_results rt (JArr []) = Inr None"
  by (simp add: render_results_def length_gt_zero_empty)

lemma start_keeps_words: "processedWords (handleAnalyze_start rt w) = processedWords w"
  by (simp add: handleAnalyze_start_def Let_def)

lemma resume_error_keeps_words:
  "error (handleAnalyze_resume rt outcome w) \<noteq> None \<Longrightarrow>
   processedWords (handleAnalyze_resume rt outcome w) = processedWords w"
  by (auto simp add: analyze_defs split: analyze_splits if_splits)

lemma resume_failure_sets_error:
  "error (handleAnalyze_resume rt (Rejected e) w) \<noteq> None"
  "error (handleAnalyze_resume rt (Responded st (Inl e)) w) \<noteq> None"
  "st < 200 \<or> 299 < st \<Longrightarrow> error (handleAnalyze_resume rt (Responded st parsed) w) \<noteq> None"
  by (auto simp add: analyze_defs response_ok_def)

lemma resume_no_words_sets_error:
  assumes "get_prop data (lit ''words'') = Inr None
    \<or> get_prop data (lit ''words'') = Inr (Some (JArr []))"
  shows "error (handleAnalyze_resume rt (Responded st (Inr data)) w) \<noteq> None"
  using assms by (auto simp add: analyze_defs length_gt_zero_empty)

text \<open>
  C3. When the input buffer is empty or holds only whitespace, \<^verbatim>\<open>handleAnalyze\<close> does
  nothing but set the error message to "Please enter some text to analyze": no request
  is sent, none is left in flight, and the call is over at once.
\<close>

theorem blank_input_sends_nothing:
  assumes "inputText w = [] \<or> (\<forall>c \<in> set (inputText w). is_ws c)"
  shows "handleAnalyze_start rt w = w\<lparr>error := Some (lit ''Please enter some text to analyze'')\<rparr>
    \<and> sent (handleAnalyze_start rt w) = sent w
    \<and> pending (handleAnalyze_start rt w) = pending w
    \<and> handleAnalyze rt outcome w = handleAnalyze_start rt w"
proof -
  from assms have "trim (inputText w) = []"
    by (auto simp: trim_empty_iff)
  then show ?thesis
    by (simp add: handleAnalyze_start_def handleAnalyze_def)
qed

theorem blank_input_sends_nothing_witness:
  "handleAnalyze_start sample_runtime (initial\<lparr>inputText := [0x20, 0x09, 0x0A, 0x3000]\<rparr>)
     = initial\<lparr>inputText := [0x20, 0x09, 0x0A, 0x3000],
         error := Some (lit ''Please enter some text to analyze'')\<rparr>
   \<and> sent (handleAnalyze_start sample_runtime (initial\<lparr>inputText := [0x20, 0x09, 0x0A, 0x3000]\<rparr>)) = []"
  using blank_input_sends_nothing
    [of "initial\<lparr>inputText := [0x20, 0x09, 0x0A, 0x3000]\<rparr>" sample_runtime]
  by (simp add: is_ws_def initial_def)

text \<open>
  C8. When the input buffer is not blank, \<^verbatim>\<open>handleAnalyze\<close> sets the loading flag,
  clears the error and calls \<^verbatim>\<open>fetch\<close> once: a POST to the analysis endpoint with the
  JSON content type, whose body is \<^verbatim>\<open>{ text: inputText }\<close> with the buffer as it
  stands, untrimmed. The rest of the call sends nothing more.
\<close>

theorem valid_input_sends_one_post:
  assumes "trim (inputText w) \<noteq> []"
  shows "isLoading (handleAnalyze_start rt w)
    \<and> error (handleAnalyze_start rt w) = None
    \<and> sent (handleAnalyze_start rt w) = sent w @
        [\<lparr> verb = ''POST'', url = API_URL rt @ lit ''/api/process-text'',
           headers = [(''Content-Type'', ''application/json'')],
           body = Some (JObj [(lit ''text'', JStr (inputText w))]) \<rparr>]
    \<and> sent (handleAnalyze_resume rt outcome w') = sent w'
    \<and> length (sent (handleAnalyze rt outcome w)) = length (sent w) + 1"
  using assms
  by (simp add: handleAnalyze_start_def handleAnalyze_def analyze_defs split: analyze_splits)

theorem valid_input_sends_one_post_witness:
  "sent (handleAnalyze_start sample_runtime
      (initial\<lparr>inputText := lit '' cat '', error := Some (lit ''No words returned from server'')\<rparr>))
     = [\<lparr> verb = ''POST'', url = lit ''http://localhost:5000/api/process-text'',
          headers = [(''Content-Type'', ''application/json'')],
          body = Some (JObj [(lit ''text'', JStr (lit '' cat ''))]) \<rparr>]
   \<and> isLoading (handleAnalyze_start sample_runtime
      (initial\<lparr>inputText := lit '' cat '', error := Some (lit ''No words returned from server'')\<rparr>))
   \<and> error (handleAnalyze_start sample_runtime
      (initial\<lparr>inputText := lit '' cat '', error := Some (lit ''No words returned from server'')\<rparr>)) = None"
proof -
  have h: "trim (inputText (initial\<lparr>inputText := lit '' cat '',
      error := Some (lit ''No words returned from server'')\<rparr>)) \<noteq> []"
    by (simp add: trim_def is_ws_def lit_def)
  show ?thesis
    using valid_input_sends_one_post [OF h, of sample_runtime]
    by (simp add: initial_def API_URL_def sample_runtime_def lit_def)
qed

text \<open>
  C9. A call of \<^verbatim>\<open>handleAnalyze\<close> on an input that is not blank sets the loading flag,
  and the flag is cleared when the call completes, whatever the exchange ended with
  (a rejected \<^verbatim>\<open>fetch\<close>, any status, an unparsable or arbitrary body), and whatever
  state the component is in when the call resumes.
\<close>

theorem loading_cleared_when_call_completes:
  assumes "trim (inputText w) \<noteq> []"
  shows "isLoading (handleAnalyze_start rt w)
    \<and> \<not> isLoading (handleAnalyze rt outcome w)
    \<and> \<not> isLoading (handleAnalyze_resume rt outcome w')"
  using assms
  by (simp add: handleAnalyze_def handleAnalyze_start_def analyze_defs split: analyze_splits)

theorem loading_cleared_when_call_completes_witness:
  "isLoading (handleAnalyze_start sample_runtime (initial\<lparr>inputText := lit ''cat''\<rparr>))
   \<and> \<not> isLoading (handleAnalyze sample_runtime (words_response [cat])
         (initial\<lparr>inputText := lit ''cat''\<rparr>))
   \<and> \<not> isLoading (handleAnalyze sample_runtime (Rejected (Thrown (lit ''Failed to fetch'')))
         (initial\<lparr>inputText := lit ''cat''\<rparr>))"
  using loading_cleared_when_call_completes [OF trim_cat, of sample_runtime initial "words_response [cat]"]
    loading_cleared_when_call_completes [OF trim_cat, of sample_runtime initial
      "Rejected (Thrown (lit ''Failed to fetch''))"]
  by simp

text \<open>
  C4. When the analysis response has a status \<open>st\<close> outside 200..299, the error message
  becomes "Failed to process text: Server error: " followed by the decimal digits of
  \<open>st\<close>, whatever the body of the response is.
\<close>

theorem server_error_message:
  assumes "st < 200 \<or> 299 < st"
  shows "error (handleAnalyze_resume rt (Responded st parsed) w')
      = Some (lit ''Failed to process text: Server error: '' @ show_nat st)
    \<and> (trim (inputText w) \<noteq> [] \<longrightarrow>
        error (handleAnalyze rt (Responded st parsed) w)
          = Some (lit ''Failed to process text: Server error: '' @ show_nat st))"
  using assms
  by (auto simp add: handleAnalyze_def response_ok_def analyze_defs lit_def
      simp del: show_nat.simps)

theorem server_error_message_witness:
  "error (handleAnalyze sample_runtime (Responded 500 (Inl (Thrown (lit ''Unexpected token''))))
       (initial\<lparr>inputText := lit ''cat''\<rparr>))
     = Some (lit ''Failed to process text: Server error: 500'')"
proof -
  have d: "show_nat 500 = lit ''500''"
    by (simp add: lit_def)
  show ?thesis
    using server_error_message [of 500 sample_runtime _ _ "initial\<lparr>inputText := lit ''cat''\<rparr>"]
      trim_cat [of initial]
    by (simp add: d lit_def del: show_nat.simps)
qed

text \<open>
  C1, as the code has it. When the analysis response has a status in 200..299 and a
  body whose \<^verbatim>\<open>words\<close> is missing or the empty array, the error message becomes
  "No words returned from server" and the stored words are left as they were: no word
  list is rendered if none was stored before. (A list stored by an earlier analysis
  stays, and stays rendered.)
\<close>

theorem empty_words_reports_error:
  assumes "200 \<le> st \<and> st \<le> 299"
    and "get_prop data (lit ''words'') = Inr None
      \<or> get_prop data (lit ''words'') = Inr (Some (JArr []))"
  shows "error (handleAnalyze_resume rt (Responded st (Inr data)) w')
        = Some (lit ''No words returned from server'')
    \<and> processedWords (handleAnalyze_resume rt (Responded st (Inr data)) w') = processedWords w'
    \<and> (processedWords w' = JArr [] \<longrightarrow>
         render_results rt (processedWords (handleAnalyze_resume rt (Responded st (Inr data)) w'))
           = Inr None)"
  using assms
  by (auto simp add: analyze_defs response_ok_def length_gt_zero_empty render_results_empty)

theorem empty_words_reports_error_witness:
  "error (handleAnalyze_resume sample_runtime (words_response []) initial)
     = Some (lit ''No words returned from server'')
   \<and> error (handleAnalyze_resume sample_runtime (Responded 200 (Inr (JObj []))) initial)
     = Some (lit ''No words returned from server'')
   \<and> render_results sample_runtime
       (processedWords (handleAnalyze_resume sample_runtime (words_response []) initial)) = Inr None"
  using empty_words_reports_error [of 200 "JObj [(lit ''words'', JArr [])]" sample_runtime initial]
    empty_words_reports_error [of 200 "JObj []" sample_runtime initial]
  by (simp add: words_response_def initial_def render_results_empty)

text \<open>
  The claim C1 as the specification states it fails: after one analysis has stored the
  word "cat", a second one whose response is \<^verbatim>\<open>{words: []}\<close> sets the error message,
  and the word list of the first is still rendered.
\<close>

theorem stale_words_counterexample:
  "error (run sample_runtime second_analysis_empty initial)
     = Some (lit ''No words returned from server'')
   \<and> render_results sample_runtime (processedWords (run sample_runtime second_analysis_empty initial))
     = Inr (Some [\<lparr> key = 0, className = lit ''word importance-4'', opacity = Some (JNum (Fin 1)),
         onClick = cat, label = Some (JStr (lit ''cat'')) \<rparr>])
   \<and> render_results sample_runtime (processedWords (run sample_runtime second_analysis_empty initial))
     \<noteq> Inr None"
  by code_simp

text \<open>
  C10. A call of \<^verbatim>\<open>handleAnalyze\<close> that meets a blank input, a rejected \<^verbatim>\<open>fetch\<close>, a
  status outside 200..299, an unparsable body, or a body whose \<^verbatim>\<open>words\<close> is missing or
  empty ends with an error message; and every call that ends with an error message
  leaves the stored words as they were, so that what is rendered of them stays the same.
  This holds as well when the call resumes in a state other than the one it left.
\<close>

theorem failed_submit_keeps_words:
  "(trim (inputText w) = []
      \<or> (\<exists>e. outcome = Rejected e)
      \<or> (\<exists>st parsed. outcome = Responded st parsed \<and> (st < 200 \<or> 299 < st))
      \<or> (\<exists>st e. outcome = Responded st (Inl e))
      \<or> (\<exists>st data. outcome = Responded st (Inr data) \<and>
            (get_prop data (lit ''words'') = Inr None
              \<or> get_prop data (lit ''words'') = Inr (Some (JArr []))))
     \<longrightarrow> error (handleAnalyze rt outcome w) \<noteq> None)
   \<and> (error (handleAnalyze rt outcome w) \<noteq> None \<longrightarrow>
        processedWords (handleAnalyze rt outcome w) = processedWords w
        \<and> render_results rt (processedWords (handleAnalyze rt outcome w))
            = render_results rt (processedWords w))
   \<and> (error (handleAnalyze_resume rt outcome w') \<noteq> None \<longrightarrow>
        processedWords (handleAnalyze_resume rt outcome w') = processedWords w')"
proof (intro conjI impI)
  assume cat: "trim (inputText w) = []
      \<or> (\<exists>e. outcome = Rejected e)
      \<or> (\<exists>st parsed. outcome = Responded st parsed \<and> (st < 200 \<or> 299 < st))
      \<or> (\<exists>st e. outcome = Responded st (Inl e))
      \<or> (\<exists>st data. outcome = Responded st (Inr data) \<and>
            (get_prop data (lit ''words'') = Inr None
              \<or> get_prop data (lit ''words'') = Inr (Some (JArr []))))"
  show "error (handleAnalyze rt outcome w) \<noteq> None"
  proof (cases "trim (inputText w) = []")
    case True
    then show ?thesis
      by (simp add: handleAnalyze_def handleAnalyze_start_def)
  next
    case False
    with cat show ?thesis
      by (auto simp add: handleAnalyze_def resume_failure_sets_error resume_no_words_sets_error
          simp flip: not_None_eq)
  qed
next
  assume err: "error (handleAnalyze rt outcome w) \<noteq> None"
  show same: "processedWords (handleAnalyze rt outcome w) = processedWords w"
  proof (cases "trim (inputText w) = []")
    case True
    then show ?thesis
      by (simp add: handleAnalyze_def start_keeps_words)
  next
    case False
    with err have "error (handleAnalyze_resume rt outcome
        ((handleAnalyze_start rt w)\<lparr>pending := pending w\<rparr>)) \<noteq> None"
      by (simp add: handleAnalyze_def)
    from resume_error_keeps_words [OF this] False show ?thesis
      by (simp add: handleAnalyze_def start_keeps_words)
  qed
  show "render_results rt (processedWords (handleAnalyze rt outcome w))
      = render_results rt (processedWords w)"
    by (simp only: same)
next
  assume "error (handleAnalyze_resume rt outcome w') \<noteq> None"
  then show "processedWords (handleAnalyze_resume rt outcome w') = processedWords w'"
    by (rule resume_error_keeps_words)
qed

theorem failed_submit_keeps_words_witness:
  "error (handleAnalyze sample_runtime (Rejected (Thrown (lit ''Failed to fetch'')))
      (initial\<lparr>inputText := lit ''cat'', processedWords := JArr [cat]\<rparr>))
     = Some (lit ''Failed to process text: Failed to fetch'')
   \<and> processedWords (handleAnalyze sample_runtime (Rejected (Thrown (lit ''Failed to fetch'')))
      (initial\<lparr>inputText := lit ''cat'', processedWords := JArr [cat]\<rparr>)) = JArr [cat]"
proof -
  have e: "error (handleAnalyze sample_runtime (Rejected (Thrown (lit ''Failed to fetch'')))
      (initial\<lparr>inputText := lit ''cat'', processedWords := JArr [cat]\<rparr>))
     = Some (lit ''Failed to process text: Failed to fetch'')"
    using trim_cat [of "initial\<lparr>processedWords := JArr [cat]\<rparr>"]
    by (simp add: handleAnalyze_def analyze_defs lit_def)
  show ?thesis
    using failed_submit_keeps_words [of "initial\<lparr>inputText := lit ''cat'', processedWords := JArr [cat]\<rparr>"
        "Rejected (Thrown (lit ''Failed to fetch''))" sample_runtime] e
    by simp
qed

section \<open>Properties of the word list\<close>

text \<open>When no element throws, the elements are rendered one by one, in order.\<close>

lemma sequence_map_Inr:
  assumes "\<forall>x \<in> set xs. \<exists>y. f x = Inr y"
  shows "\<exists>ys. sequence (map f xs) = Inr ys \<and> length ys = length xs
    \<and> (\<forall>i < length xs. f (xs ! i) = Inr (ys ! i))"
  using assms
proof (induction xs)
  case Nil
  then show ?case by simp
next
  case (Cons x xs)
  then obtain y where y: "f x = Inr y" by auto
  from Cons obtain ys where ys: "sequence (map f xs) = Inr ys" "length ys = length xs"
    "\<forall>i < length xs. f (xs ! i) = Inr (ys ! i)" by auto
  have "\<forall>i < length (x # xs). f ((x # xs) ! i) = Inr ((y # ys) ! i)"
    using y ys(3) by (auto simp: nth_Cons split: nat.splits)
  with y ys show ?case by auto
qed

lemma to_string_bucket:
  assumes "k \<le> 4"
  shows "to_string rt (Some (JNum (Fin (of_nat k)))) = Inr (show_nat k)"
  using assms by (simp add: to_string_def num_to_string_def del: show_nat.simps)

lemma render_word_annotation:
  assumes "map_of kvs (lit ''importance'') = Some (JNum (Fin (of_nat k)))" and "k \<le> 4"
  shows "render_word rt (i, JObj kvs) =
    Inr \<lparr> key = i, className = lit ''word importance-'' @ show_nat k,
          opacity = map_of kvs (lit ''opacity''), onClick = JObj kvs,
          label = map_of kvs (lit ''word'') \<rparr>"
  using assms by (simp add: render_word_def to_string_bucket del: show_nat.simps)

text \<open>
  C7. A non-empty sequence of annotations, each an object whose \<^verbatim>\<open>importance\<close> is one of
  0..4, is rendered as one span per annotation, in order: the span's click hands the
  handler that very annotation, its \<^verbatim>\<open>style.opacity\<close> is what the annotation's \<^verbatim>\<open>opacity\<close>
  field holds (whatever the importance), its label is the \<^verbatim>\<open>word\<close> field, and its class is
  "word importance-" followed by the digit of the importance.
\<close>

theorem words_rendered_as_received:
  assumes "ws \<noteq> []"
    and "\<forall>x \<in> set ws. \<exists>kvs k. x = JObj kvs \<and> k \<le> 4
           \<and> map_of kvs (lit ''importance'') = Some (JNum (Fin (of_nat k)))"
  shows "\<exists>spans. render_results rt (JArr ws) = Inr (Some spans)
    \<and> length spans = length ws
    \<and> (\<forall>i < length ws.
          key (spans ! i) = i
        \<and> onClick (spans ! i) = ws ! i
        \<and> get_prop (ws ! i) (lit ''opacity'') = Inr (opacity (spans ! i))
        \<and> get_prop (ws ! i) (lit ''word'') = Inr (label (spans ! i))
        \<and> (\<exists>k \<le> 4. get_prop (ws ! i) (lit ''importance'') = Inr (Some (JNum (Fin (of_nat k))))
             \<and> className (spans ! i) = lit ''word importance-'' @ show_nat k))"
proof -
  have "\<forall>p \<in> set (List.enumerate 0 ws). \<exists>s. render_word rt p = Inr s"
  proof
    fix p assume "p \<in> set (List.enumerate 0 ws)"
    then obtain i where "p = (i, ws ! i)" "i < length ws"
      by (auto simp: in_set_conv_nth nth_enumerate_eq)
    moreover from this assms(2) obtain kvs k where "ws ! i = JObj kvs" "k \<le> 4"
      "map_of kvs (lit ''importance'') = Some (JNum (Fin (of_nat k)))"
      by (metis nth_mem)
    ultimately show "\<exists>s. render_word rt p = Inr s"
      by (simp add: render_word_annotation del: show_nat.simps)
  qed
  from sequence_map_Inr [OF this] obtain spans where
    seq: "sequence (map (render_word rt) (List.enumerate 0 ws)) = Inr spans"
    and len: "length spans = length ws"
    and each: "\<forall>i < length ws. render_word rt (i, ws ! i) = Inr (spans ! i)"
    by (auto simp: nth_enumerate_eq)
  have "render_results rt (JArr ws) = Inr (Some spans)"
    using assms(1) seq by (simp add: render_results_def length_gt_zero_def)
  moreover have "key (spans ! i) = i
        \<and> onClick (spans ! i) = ws ! i
        \<and> get_prop (ws ! i) (lit ''opacity'') = Inr (opacity (spans ! i))
        \<and> get_prop (ws ! i) (lit ''word'') = Inr (label (spans ! i))
        \<and> (\<exists>k \<le> 4. get_prop (ws ! i) (lit ''importance'') = Inr (Some (JNum (Fin (of_nat k))))
             \<and> className (spans ! i) = lit ''word importance-'' @ show_nat k)"
    if i: "i < length ws" for i
  proof -
    from i assms(2) obtain kvs k where x: "ws ! i = JObj kvs" "k \<le> 4"
      "map_of kvs (lit ''importance'') = Some (JNum (Fin (of_nat k)))"
      by (metis nth_mem)
    from each i have "render_word rt (i, ws ! i) = Inr (spans ! i)" by simp
    with x have "spans ! i = \<lparr> key = i, className = lit ''word importance-'' @ show_nat k,
          opacity = map_of kvs (lit ''opacity''), onClick = JObj kvs,
          label = map_of kvs (lit ''word'') \<rparr>"
      by (simp add: render_word_annotation del: show_nat.simps)
    with x show ?thesis
      by (auto simp del: show_nat.simps)
  qed
  ultimately show ?thesis using len by blast
qed

lemma cat_ann: "\<exists>kvs k. cat = JObj kvs \<and> k \<le> 4
    \<and> map_of kvs (lit ''importance'') = Some (JNum (Fin (of_nat k)))"
  by (rule exI [of _ "[(lit ''word'', JStr (lit ''cat'')), (lit ''importance'', JNum (Fin 4)),
     (lit ''opacity'', JNum (Fin 1))]"], rule exI [of _ 4]) (simp add: cat_def lit_def)

lemma sat_ann: "\<exists>kvs k. sat = JObj kvs \<and> k \<le> 4
    \<and> map_of kvs (lit ''importance'') = Some (JNum (Fin (of_nat k)))"
  by (rule exI [of _ "[(lit ''word'', JStr (lit ''sat'')), (lit ''importance'', JNum (Fin 0)),
     (lit ''opacity'', JNum (Fin 1))]"], rule exI [of _ 0]) (simp add: sat_def lit_def)

theorem words_rendered_as_received_witness:
  "\<exists>spans. render_results sample_runtime (JArr [cat, sat]) = Inr (Some spans)
     \<and> length spans = 2
     \<and> onClick (spans ! 1) = sat
     \<and> opacity (spans ! 1) = Some (JNum (Fin 1))
     \<and> className (spans ! 1) = lit ''word importance-0''"
proof -
  have ne: "[cat, sat] \<noteq> []" by simp
  have ann: "\<forall>x \<in> set [cat, sat]. \<exists>kvs k. x = JObj kvs \<and> k \<le> 4
           \<and> map_of kvs (lit ''importance'') = Some (JNum (Fin (of_nat k)))"
    using cat_ann sat_ann by simp
  from words_rendered_as_received [OF ne ann, of sample_runtime]
  obtain spans where r: "render_results sample_runtime (JArr [cat, sat]) = Inr (Some spans)"
    and len: "length spans = 2"
    and one: "onClick (spans ! 1) = sat"
      "get_prop sat (lit ''opacity'') = Inr (opacity (spans ! 1))"
      "\<exists>k \<le> 4. get_prop sat (lit ''importance'') = Inr (Some (JNum (Fin (of_nat k))))
         \<and> className (spans ! 1) = lit ''word importance-'' @ show_nat k"
    by fastforce
  from one(2) have op: "opacity (spans ! 1) = Some (JNum (Fin 1))"
    by (simp add: sat_def lit_def)
  from one(3) obtain k where "(of_nat k :: rat) = 0"
    and c: "className (spans ! 1) = lit ''word importance-'' @ show_nat k"
    by (auto simp add: sat_def lit_def simp del: show_nat.simps)
  then have "k = 0" by simp
  with c have "className (spans ! 1) = lit ''word importance-0''"
    by (simp add: lit_def)
  with r len one(1) op show ?thesis by blast
qed

section \<open>Properties of the detail panel\<close>

text \<open>
  A request in flight stays in flight, with its continuation, until its own exchange
  ends: no other event removes or replaces it.
\<close>

lemma map_of_filter_other:
  "i \<noteq> j \<Longrightarrow> map_of (filter (\<lambda>p. fst p \<noteq> j) ps) i = map_of ps i"
  by (induction ps) auto

lemma analyze_start_pending:
  "map_of (pending w) i = Some k \<Longrightarrow> map_of (pending (handleAnalyze_start rt w)) i = Some k"
  by (simp add: handleAnalyze_start_def Let_def)

lemma analyze_resume_pending: "pending (handleAnalyze_resume rt outcome w) = pending w"
  by (simp add: analyze_defs split: analyze_splits)

lemma click_start_pending:
  "map_of (pending w) i = Some k \<Longrightarrow> map_of (pending (handleWordClick_start rt a w)) i = Some k"
  by (simp add: handleWordClick_start_def Let_def split: sum.splits)

lemma click_resume_pending: "pending (handleWordClick_resume a outcome w) = pending w"
  by (simp add: handleWordClick_resume_def split: fetch_outcome.splits sum.splits)

lemma settle_other_pending:
  assumes "map_of (pending w) i = Some k" and "i \<noteq> j"
  shows "map_of (pending (settle rt j outcome w)) i = Some k"
  using assms
  by (simp add: settle_def Let_def analyze_resume_pending click_resume_pending
      map_of_filter_other split: option.splits cont.splits)

lemma step_keeps_pending:
  assumes "map_of (pending w) i = Some k" and "\<forall>outcome. ev \<noteq> Settle i outcome"
  shows "map_of (pending (step rt ev w)) i = Some k"
proof (cases ev)
  case (Settle j outcome)
  with assms(2) have "i \<noteq> j" by auto
  with assms(1) Settle show ?thesis by (simp add: settle_other_pending)
next
  case (ClickWord n)
  with assms(1) show ?thesis
    by (simp add: click_start_pending split: sum.splits option.splits)
qed (use assms(1) in \<open>simp_all add: analyze_start_pending closeSidebar_def elapse_def Let_def\<close>)

lemma run_keeps_pending:
  assumes "map_of (pending w) i = Some k" and "\<forall>outcome. Settle i outcome \<notin> set evs"
  shows "map_of (pending (run rt evs w)) i = Some k"
  using assms
proof (induction evs arbitrary: w)
  case Nil
  then show ?case by (simp add: run_def)
next
  case (Cons ev evs)
  from Cons.prems have "map_of (pending (step rt ev w)) i = Some k"
    by (intro step_keeps_pending) auto
  with Cons show ?case by (simp add: run_def)
qed

lemma click_start_registers:
  assumes "translate_url rt a = Inr target" and "length (sent w) \<notin> fst ` set (pending w)"
  shows "map_of (pending (handleWordClick_start rt a w)) (length (sent w)) = Some (TranslateCont a)"
proof -
  from assms(2) have "map_of (pending w) (length (sent w)) = None"
    by (simp add: map_of_eq_None_iff)
  with assms(1) show ?thesis
    by (simp add: handleWordClick_start_def Let_def map_add_def)
qed

lemma settle_translation:
  assumes "map_of (pending w) i = Some (TranslateCont a)"
  shows "selectedWord (settle rt i (Responded st (Inr r)) w) = spread a r"
  using assms by (simp add: settle_def handleWordClick_resume_def)

lemma spread_objects:
  "\<exists>m. spread (JObj ka) (JObj kr) = JObj m \<and> map_of m = map_of ka ++ map_of kr"
  by (simp add: spread_def merge_conv')

text \<open>
  The requests in flight were all sent: in every world reached from the initial one, the
  index the next request gets is not in use.
\<close>

lemma step_ids_fresh:
  assumes "\<forall>p \<in> set (pending w). fst p < length (sent w)"
  shows "\<forall>p \<in> set (pending (step rt ev w)). fst p < length (sent (step rt ev w))"
proof (cases ev)
  case ClickAnalyze
  with assms show ?thesis
    by (auto simp add: handleAnalyze_start_def Let_def less_Suc_eq)
next
  case (ClickWord n)
  with assms show ?thesis
    by (auto simp add: handleWordClick_start_def Let_def less_Suc_eq
        split: sum.splits option.splits)
next
  case (Settle j outcome)
  with assms show ?thesis
    by (auto simp add: settle_def Let_def analyze_defs handleWordClick_resume_def
        split: analyze_splits cont.splits)
qed (use assms in \<open>auto simp add: closeSidebar_def elapse_def Let_def\<close>)

lemma run_ids_fresh:
  assumes "\<forall>p \<in> set (pending w). fst p < length (sent w)"
  shows "\<forall>p \<in> set (pending (run rt evs w)). fst p < length (sent (run rt evs w))"
  using assms
proof (induction evs arbitrary: w)
  case Nil
  then show ?case by (simp add: run_def)
next
  case (Cons ev evs)
  from step_ids_fresh [OF Cons.prems] Cons.IH [of "step rt ev w"]
  show ?case by (simp add: run_def)
qed

lemma reachable_fresh:
  "length (sent (run rt evs initial)) \<notin> fst ` set (pending (run rt evs initial))"
proof -
  have "\<forall>p \<in> set (pending initial). fst p < length (sent initial)"
    by (simp add: initial_def)
  from run_ids_fresh [OF this, of rt evs] show ?thesis by auto
qed

text \<open>
  C2. \<^verbatim>\<open>handleWordClick\<close> sets the selection to the clicked annotation and opens the
  panel at once, and (when the address can be built) sends one GET. When that request
  ends with a body that parses, the selection becomes \<^verbatim>\<open>{ ...wordData, ...translationData }\<close>
  for the annotation clicked then: for two objects, every name maps to what the response
  gives it, and otherwise to what the annotation gives it. Nothing is checked first:
  whatever state the call resumes in, and whatever happened since the click (another
  word selected, the panel closed), the selection is overwritten by this merge.
\<close>

theorem stale_translation_overwrites_selection:
  "selectedWord (handleWordClick_start rt a w) = a
   \<and> sidebarOpen (handleWordClick_start rt a w)
   \<and> selectedWord (handleWordClick_resume a (Responded st (Inr r)) w') = spread a r
   \<and> (\<forall>ka kr. a = JObj ka \<and> r = JObj kr \<longrightarrow>
         (\<exists>m. spread a r = JObj m \<and> map_of m = map_of ka ++ map_of kr))
   \<and> (translate_url rt a = Inr target
        \<and> length (sent w) \<notin> fst ` set (pending w)
        \<and> (\<forall>outcome. Settle (length (sent w)) outcome \<notin> set evs) \<longrightarrow>
          sent (handleWordClick_start rt a w)
            = sent w @ [\<lparr> verb = ''GET'', url = target, headers = [], body = None \<rparr>]
        \<and> selectedWord (settle rt (length (sent w)) (Responded st (Inr r))
              (run rt evs (handleWordClick_start rt a w))) = spread a r)"
proof -
  have now: "selectedWord (handleWordClick_start rt a w) = a
      \<and> sidebarOpen (handleWordClick_start rt a w)"
    by (simp add: handleWordClick_start_def Let_def split: sum.splits)
  have resumed: "selectedWord (handleWordClick_resume a (Responded st (Inr r)) w') = spread a r"
    by (simp add: handleWordClick_resume_def)
  have later: "sent (handleWordClick_start rt a w)
            = sent w @ [\<lparr> verb = ''GET'', url = target, headers = [], body = None \<rparr>]
        \<and> selectedWord (settle rt (length (sent w)) (Responded st (Inr r))
              (run rt evs (handleWordClick_start rt a w))) = spread a r"
    if u: "translate_url rt a = Inr target"
      and f: "length (sent w) \<notin> fst ` set (pending w)"
      and n: "\<forall>outcome. Settle (length (sent w)) outcome \<notin> set evs"
  proof -
    have "map_of (pending (run rt evs (handleWordClick_start rt a w))) (length (sent w))
        = Some (TranslateCont a)"
      using u f n by (intro run_keeps_pending click_start_registers)
    then have "selectedWord (settle rt (length (sent w)) (Responded st (Inr r))
          (run rt evs (handleWordClick_start rt a w))) = spread a r"
      by (rule settle_translation)
    moreover have "sent (handleWordClick_start rt a w)
        = sent w @ [\<lparr> verb = ''GET'', url = target, headers = [], body = None \<rparr>]"
      using u by (simp add: handleWordClick_start_def Let_def)
    ultimately show ?thesis by simp
  qed
  from now resumed later spread_objects show ?thesis
    by blast
qed

lemma analysed_world:
  "sent (run sample_runtime analysed initial)
     = [\<lparr> verb = ''POST'', url = lit ''http://localhost:5000/api/process-text'',
          headers = [(''Content-Type'', ''application/json'')],
          body = Some (JObj [(lit ''text'', JStr (lit ''cat sat''))]) \<rparr>]"
  "pending (run sample_runtime analysed initial) = []"
  "processedWords (run sample_runtime analysed initial) = JArr [cat, sat]"
  by code_simp+

theorem stale_translation_overwrites_selection_witness:
  "selectedWord (run sample_runtime [ClickWord 1]
      (handleWordClick_start sample_runtime cat (run sample_runtime analysed initial))) = sat
   \<and> selectedWord (settle sample_runtime 1 (Responded 200 (Inr chatul))
        (run sample_runtime [ClickWord 1]
          (handleWordClick_start sample_runtime cat (run sample_runtime analysed initial))))
      = spread cat chatul
   \<and> get_prop (spread cat chatul) (lit ''word'') = Inr (Some (JStr (lit ''cat'')))
   \<and> get_prop (spread cat chatul) (lit ''transliteration'') = Inr (Some (JStr (lit ''chatul'')))"
proof -
  have u: "translate_url sample_runtime cat = Inr (lit ''http://localhost:5000/api/translate/word/cat'')"
    by code_simp
  have f: "length (sent (run sample_runtime analysed initial))
      \<notin> fst ` set (pending (run sample_runtime analysed initial))"
    by (simp add: analysed_world)
  have n: "\<forall>outcome. Settle (length (sent (run sample_runtime analysed initial))) outcome
      \<notin> set [ClickWord 1]"
    by simp
  have l: "length (sent (run sample_runtime analysed initial)) = 1"
    by (simp add: analysed_world)
  have s: "selectedWord (run sample_runtime [ClickWord 1]
      (handleWordClick_start sample_runtime cat (run sample_runtime analysed initial))) = sat"
    by code_simp
  have g: "get_prop (spread cat chatul) (lit ''word'') = Inr (Some (JStr (lit ''cat'')))"
    "get_prop (spread cat chatul) (lit ''transliteration'') = Inr (Some (JStr (lit ''chatul'')))"
    by code_simp+
  from stale_translation_overwrites_selection
      [of sample_runtime cat "run sample_runtime analysed initial" 200 chatul _ _ "[ClickWord 1]"]
    u f n l s g
  show ?thesis by simp
qed

text \<open>
  The exception paths of \<^verbatim>\<open>handleWordClick\<close>. When the \<^verbatim>\<open>fetch\<close> is rejected or the body
  does not parse, the handler only writes the error to the console: the selection, the
  error message and the panel's visibility are as they were. When the address cannot be
  built, no request is sent and, after the two setters, only the console changes.
\<close>

theorem translation_failure_only_logged:
  assumes "outcome = Rejected e \<or> outcome = Responded st (Inl e)"
  shows "handleWordClick_resume a outcome w'
      = w'\<lparr>console := console w' @ [ErrorLog (lit ''Translation error:'') e]\<rparr>
    \<and> selectedWord (handleWordClick_resume a outcome w') = selectedWord w'
    \<and> error (handleWordClick_resume a outcome w') = error w'
    \<and> sidebarOpen (handleWordClick_resume a outcome w') = sidebarOpen w'
    \<and> sidebar_visible (handleWordClick_resume a outcome w') = sidebar_visible w'
    \<and> (translate_url rt a = Inl e \<longrightarrow>
          handleWordClick_start rt a w
            = w\<lparr>selectedWord := a, sidebarOpen := True,
                console := console w @ [ErrorLog (lit ''Translation error:'') e]\<rparr>
        \<and> error (handleWordClick_start rt a w) = error w
        \<and> sent (handleWordClick_start rt a w) = sent w)"
  using assms
  by (auto simp add: handleWordClick_resume_def handleWordClick_start_def sidebar_visible_def)

theorem translation_failure_only_logged_witness:
  "selectedWord (handleWordClick_resume cat (Rejected (Thrown (lit ''Failed to fetch'')))
      (handleWordClick_start sample_runtime cat (run sample_runtime analysed initial))) = cat
   \<and> error (handleWordClick_resume cat (Rejected (Thrown (lit ''Failed to fetch'')))
      (handleWordClick_start sample_runtime cat (run sample_runtime analysed initial))) = None
   \<and> sidebarOpen (handleWordClick_resume cat (Rejected (Thrown (lit ''Failed to fetch'')))
      (handleWordClick_start sample_runtime cat (run sample_runtime analysed initial)))
   \<and> console (handleWordClick_resume cat (Responded 404 (Inl (Thrown (lit ''Unexpected token''))))
      (initial\<lparr>selectedWord := cat\<rparr>))
     = [ErrorLog (lit ''Translation error:'') (Thrown (lit ''Unexpected token''))]"
proof -
  have s: "selectedWord (handleWordClick_start sample_runtime cat (run sample_runtime analysed initial)) = cat"
    "error (handleWordClick_start sample_runtime cat (run sample_runtime analysed initial)) = None"
    "sidebarOpen (handleWordClick_start sample_runtime cat (run sample_runtime analysed initial))"
    by code_simp+
  from translation_failure_only_logged
      [of "Rejected (Thrown (lit ''Failed to fetch''))" "Thrown (lit ''Failed to fetch'')" _ cat
        "handleWordClick_start sample_runtime cat (run sample_runtime analysed initial)"]
    translation_failure_only_logged
      [of "Responded 404 (Inl (Thrown (lit ''Unexpected token'')))" "Thrown (lit ''Unexpected token'')" 404 cat
        "initial\<lparr>selectedWord := cat\<rparr>"]
    s
  show ?thesis by (simp add: initial_def)
qed

text \<open>
  Whatever the status of the response, a body that parses is spread over the annotation:
  \<^verbatim>\<open>handleWordClick\<close> has no check of \<^verbatim>\<open>response.ok\<close>, where \<^verbatim>\<open>handleAnalyze\<close> has one.
\<close>

lemma parsed_body_merged_whatever_status:
  "handleWordClick_resume a (Responded st (Inr r)) w = w\<lparr>selectedWord := spread a r\<rparr>"
  by (simp add: handleWordClick_resume_def)

text \<open>
  C6. The claim is that every failure of the translation call is only logged and leaves
  the selection as it was. The code does not keep it when the call is answered with an
  error status and a body that parses. Here the translation of "cat" is answered 404
  with \<^verbatim>\<open>{error: "Word not found"}\<close>: nothing is written to the console, and the
  selection is replaced by the annotation merged with the error body. When "sat" has
  been selected in the meantime, that newer selection is replaced too.
\<close>

theorem translation_error_status_merged:
  "console (run sample_runtime translation_refused initial)
     = console (run sample_runtime (analysed @ [ClickWord 0]) initial)
   \<and> selectedWord (run sample_runtime (analysed @ [ClickWord 0]) initial) = cat
   \<and> selectedWord (run sample_runtime translation_refused initial)
     = JObj [(lit ''word'', JStr (lit ''cat'')), (lit ''importance'', JNum (Fin 4)),
         (lit ''opacity'', JNum (Fin 1)), (lit ''error'', JStr (lit ''Word not found''))]
   \<and> error (run sample_runtime translation_refused initial) = None
   \<and> console (run sample_runtime translation_refused_late initial)
     = console (run sample_runtime (analysed @ [ClickWord 0, ClickWord 1]) initial)
   \<and> selectedWord (run sample_runtime (analysed @ [ClickWord 0, ClickWord 1]) initial) = sat
   \<and> selectedWord (run sample_runtime translation_refused_late initial)
     = JObj [(lit ''word'', JStr (lit ''cat'')), (lit ''importance'', JNum (Fin 4)),
         (lit ''opacity'', JNum (Fin 1)), (lit ''error'', JStr (lit ''Word not found''))]"
  by code_simp

text \<open>
  C5, as the code has it. \<^verbatim>\<open>closeSidebar\<close> hides the panel at once, keeps the selection
  and schedules its clearing 300 ms ahead. Until then the selection is what it would have
  been without the call; it is the selection held at the call provided no clearing
  scheduled by an earlier call falls due in the meantime (none is ever cancelled). From
  300 ms on the selection has been cleared.
\<close>

theorem close_hides_then_clears:
  "sidebarOpen (closeSidebar w) = False
   \<and> \<not> sidebar_visible (closeSidebar w)
   \<and> selectedWord (closeSidebar w) = selectedWord w
   \<and> timers (closeSidebar w) = timers w @ [clock w + 300]
   \<and> (d < 300 \<longrightarrow>
        selectedWord (elapse d (closeSidebar w)) = selectedWord (elapse d w)
        \<and> \<not> sidebarOpen (elapse d (closeSidebar w)))
   \<and> (d < 300 \<and> (\<forall>t \<in> set (timers w). clock w + d < t) \<longrightarrow>
        selectedWord (elapse d (closeSidebar w)) = selectedWord w)
   \<and> (300 \<le> d \<longrightarrow> selectedWord (elapse d (closeSidebar w)) = JNull)"
  by (auto simp add: elapse_def closeSidebar_def sidebar_visible_def Let_def)


theorem close_hides_then_clears_witness:
  "selectedWord (elapse 299 (closeSidebar (run sample_runtime (analysed @ [ClickWord 0]) initial))) = cat
   \<and> \<not> sidebarOpen (elapse 299 (closeSidebar (run sample_runtime (analysed @ [ClickWord 0]) initial)))
   \<and> selectedWord (elapse 300 (closeSidebar (run sample_runtime (analysed @ [ClickWord 0]) initial))) = JNull"
proof -
  let ?w = "run sample_runtime (analysed @ [ClickWord 0]) initial"
  have "timers ?w = []"
    by code_simp
  then have t: "\<forall>t \<in> set (timers ?w). clock ?w + 299 < t"
    by simp
  have c: "selectedWord ?w = cat"
    by code_simp
  have before: "(299::nat) < 300" and after: "(300::nat) \<le> 300"
    by simp_all
  from close_hides_then_clears [of ?w 299] before t
  have "selectedWord (elapse 299 (closeSidebar ?w)) = selectedWord ?w
      \<and> \<not> sidebarOpen (elapse 299 (closeSidebar ?w))"
    by blast
  moreover from close_hides_then_clears [of ?w 300] after
  have "selectedWord (elapse 300 (closeSidebar ?w)) = JNull"
    by blast
  ultimately show ?thesis
    using c by simp
qed

text \<open>
  The claim C5 as the specification states it fails: the panel is closed, reopened on
  another word 200 ms later and closed again; 100 ms after this second call the
  selection is already cleared, by the callback of the first.
\<close>

theorem early_clear_counterexample:
  "selectedWord (run sample_runtime reopened initial) = sat
   \<and> sidebar_visible (run sample_runtime reopened initial)
   \<and> run sample_runtime (reopened @ [ClickClose, Elapse 100]) initial
       = elapse 100 (closeSidebar (run sample_runtime reopened initial))
   \<and> clock (elapse 100 (closeSidebar (run sample_runtime reopened initial)))
       = clock (run sample_runtime reopened initial) + 100
   \<and> selectedWord (elapse 100 (closeSidebar (run sample_runtime reopened initial))) = JNull"
  by code_simp

end
